theory Spec2Isabelle
  imports Main "HOL-Library.AList"
begin

section \<open>JavaScript values\<close>

text \<open>
  Payloads are parsed JSON and the code tests them dynamically (\<^verbatim>\<open>'k' in data\<close>,
  \<^verbatim>\<open>typeof x === 'boolean'\<close>, truthiness), so a payload is an object of dynamically
  typed values. Numbers are the integers (no field the code reads is fractional). An
  object is an association list: the first entry of a key is its value.
\<close>

datatype jsval =
    JUndefined
  | JNull
  | JBool bool
  | JNum int
  | JStr string
  | JArr "jsval list"
  | JObj "(string \<times> jsval) list"

type_synonym obj = "(string \<times> jsval) list"

datatype error = TypeError | RequestError string

text \<open>\<^verbatim>\<open>data.k\<close> on an object: \<^verbatim>\<open>undefined\<close> when the key is missing.\<close>

definition js_get :: "string \<Rightarrow> obj \<Rightarrow> jsval" where
  "js_get k data = (case map_of data k of None \<Rightarrow> JUndefined | Some v \<Rightarrow> v)"

text \<open>\<^verbatim>\<open>'k' in data\<close>.\<close>

definition js_in :: "string \<Rightarrow> obj \<Rightarrow> bool" where
  "js_in k data = (map_of data k \<noteq> None)"

text \<open>\<^verbatim>\<open>data.k = v\<close>.\<close>

definition js_put :: "string \<Rightarrow> jsval \<Rightarrow> obj \<Rightarrow> obj" where
  "js_put k v data = AList.update k v data"

text \<open>The condition of \<^verbatim>\<open>if (x)\<close> and of \<^verbatim>\<open>x ? a : b\<close>.\<close>

fun truthy :: "jsval \<Rightarrow> bool" where
  "truthy JUndefined = False"
| "truthy JNull = False"
| "truthy (JBool b) = b"
| "truthy (JNum n) = (n \<noteq> 0)"
| "truthy (JStr s) = (s \<noteq> [])"
| "truthy (JArr xs) = True"
| "truthy (JObj kvs) = True"

text \<open>\<^verbatim>\<open>typeof x === 'boolean'\<close>.\<close>

fun is_boolean :: "jsval \<Rightarrow> bool" where
  "is_boolean (JBool b) = True"
| "is_boolean v = False"

text \<open>
  \<^verbatim>\<open>for (const x of v)\<close>: an array gives its elements, a string its characters, and
  every other value is not iterable.
\<close>

fun js_iterate :: "jsval \<Rightarrow> error + jsval list" where
  "js_iterate (JArr xs) = Inr xs"
| "js_iterate (JStr s) = Inr (map (\<lambda>c. JStr [c]) s)"
| "js_iterate v = Inl TypeError"

text \<open>
  \<^verbatim>\<open>x.k\<close> on any value: reading a property of \<^verbatim>\<open>null\<close> or \<^verbatim>\<open>undefined\<close> throws; the
  other primitives and arrays have no such property of their own.
\<close>

fun js_member :: "string \<Rightarrow> jsval \<Rightarrow> error + jsval" where
  "js_member k (JObj kvs) = Inr (js_get k kvs)"
| "js_member k JUndefined = Inl TypeError"
| "js_member k JNull = Inl TypeError"
| "js_member k v = Inr JUndefined"

text \<open>The own properties of a value passed where the callee reads an object.\<close>

fun js_fields :: "jsval \<Rightarrow> obj" where
  "js_fields (JObj kvs) = kvs"
| "js_fields v = []"

section \<open>Collections\<close>

text \<open>
  Modelled from the spec: util/Collection is not among the sources. It is a keyed mapping
  that keeps insertion order: \<^verbatim>\<open>set\<close> overwrites the entry of a key in place or appends
  a new entry, and \<^verbatim>\<open>get\<close> on a missing key returns the not-found value
  \<^verbatim>\<open>undefined\<close> and never throws.
\<close>

type_synonym 'v collection = "(jsval \<times> 'v) list"

definition coll_set :: "jsval \<Rightarrow> 'v \<Rightarrow> 'v collection \<Rightarrow> 'v collection" where
  "coll_set k v c = AList.update k v c"

definition coll_keys :: "'v collection \<Rightarrow> jsval set" where
  "coll_keys c = fst ` set c"

text \<open>\<^verbatim>\<open>get\<close> on a collection of JavaScript values.\<close>

definition coll_get :: "jsval collection \<Rightarrow> jsval \<Rightarrow> jsval" where
  "coll_get c k = (case map_of c k of None \<Rightarrow> JUndefined | Some v \<Rightarrow> v)"

section \<open>The user structures\<close>

text \<open>
  Modelled from the spec: structures/User, the class ClientUser extends, is not among
  the sources. Its fields are the identity fields of the spec's data model and the
  \<^verbatim>\<open>bot\<close> flag that \<^verbatim>\<open>ClientUser.edit\<close> reads; its patch overwrites a field when the
  payload has the key and keeps it otherwise.
\<close>

record user =
  user_id :: jsval
  username :: jsval
  discriminator :: jsval
  avatar :: jsval
  bot_flag :: jsval

definition User_patch :: "obj \<Rightarrow> 'a user_scheme \<Rightarrow> 'a user_scheme" where
  "User_patch data this =
    (let this = (if js_in ''id'' data then this\<lparr>user_id := js_get ''id'' data\<rparr> else this);
         this = (if js_in ''username'' data then this\<lparr>username := js_get ''username'' data\<rparr> else this);
         this = (if js_in ''discriminator'' data
                 then this\<lparr>discriminator := js_get ''discriminator'' data\<rparr> else this);
         this = (if js_in ''avatar'' data then this\<lparr>avatar := js_get ''avatar'' data\<rparr> else this);
         this = (if js_in ''bot'' data then this\<lparr>bot_flag := js_get ''bot'' data\<rparr> else this)
     in this)"

text \<open>
  Modelled from the spec: \<^verbatim>\<open>new User(client, data)\<close> is an entity with no field set
  yet, patched with the payload.
\<close>

definition new_User :: "obj \<Rightarrow> user" where
  "new_User data =
    User_patch data
      \<lparr>user_id = JUndefined, username = JUndefined, discriminator = JUndefined,
       avatar = JUndefined, bot_flag = JUndefined\<rparr>"

text \<open>
  The users held by the global user cache and by the friends and blocked collections
  are references to objects. The one object these functions mutate after it is cached is
  the client user itself, so a reference is either that object or another user.
\<close>

datatype user_ref = SelfRef | UserRef user

text \<open>
  ClientUserSettings and ClientUserGuildSettings are not among the sources: an instance
  is the payload it was constructed from.
\<close>

datatype client_user_settings = ClientUserSettings jsval

datatype client_user_guild_settings = ClientUserGuildSettings jsval

text \<open>
  The property \<^verbatim>\<open>cache\<close> that \<^verbatim>\<open>UserNoteUpdateAction.handle\<close> reads on the client
  user: an object with a \<^verbatim>\<open>notes\<close> collection, when the entity has one.
\<close>

record user_cache =
  cache_notes :: "jsval collection"

text \<open>
  ClientUser: the fields of User, the fields its \<^verbatim>\<open>_patch\<close> assigns, the typing map of
  its constructor. Nothing in ClientUser assigns \<^verbatim>\<open>cache\<close>.
\<close>

record client_user = user +
  typing_map :: "jsval collection"
  verified :: jsval
  email :: jsval
  friends :: "user_ref collection"
  blocked :: "user_ref collection"
  user_notes :: "jsval collection"
  premium :: jsval
  mfaEnabled :: jsval
  mobile :: jsval
  settings :: "client_user_settings option"
  guildSettings :: "client_user_guild_settings collection"
  cache :: "user_cache option"

text \<open>
  The loop of \<^verbatim>\<open>_patch\<close> over \<^verbatim>\<open>data.user_guild_settings\<close>:
  \<^verbatim>\<open>this.guildSettings.set(settings.guild_id, new ClientUserGuildSettings(this.client, settings))\<close>.
\<close>

fun guildSettings_loop ::
  "jsval list \<Rightarrow> client_user_guild_settings collection \<Rightarrow> error + client_user_guild_settings collection"
where
  "guildSettings_loop [] acc = Inr acc"
| "guildSettings_loop (s # ss) acc =
    (case js_member ''guild_id'' s of
       Inl e \<Rightarrow> Inl e
     | Inr gid \<Rightarrow> guildSettings_loop ss (coll_set gid (ClientUserGuildSettings s) acc))"

text \<open>
  The last assignments of \<^verbatim>\<open>_patch\<close> to \<^verbatim>\<open>this.guildSettings\<close>: a new collection,
  filled from \<^verbatim>\<open>data.user_guild_settings\<close> when that is truthy.
\<close>

definition patch_guildSettings :: "obj \<Rightarrow> error + client_user_guild_settings collection" where
  "patch_guildSettings data =
    (if truthy (js_get ''user_guild_settings'' data)
     then (case js_iterate (js_get ''user_guild_settings'' data) of
             Inl e \<Rightarrow> Inl e
           | Inr ss \<Rightarrow> guildSettings_loop ss [])
     else Inr [])"

text \<open>
  \<^verbatim>\<open>ClientUser._patch(data)\<close>, on the entity and the credential slot \<^verbatim>\<open>client.token\<close>,
  statement by statement. An exception leaves the function with \<open>Inl\<close>.
\<close>

definition ClientUser_patch :: "obj \<Rightarrow> client_user \<times> jsval \<Rightarrow> error + client_user \<times> jsval" where
  "ClientUser_patch data st =
    (let (this, client_token) = st;
         this = User_patch data this;
         this = (if js_in ''verified'' data then this\<lparr>verified := js_get ''verified'' data\<rparr> else this);
         this = this\<lparr>email := js_get ''email'' data\<rparr>;
         this = this\<lparr>friends := []\<rparr>;
         this = this\<lparr>blocked := []\<rparr>;
         this = this\<lparr>user_notes := []\<rparr>;
         this = this\<lparr>premium :=
                  (if is_boolean (js_get ''premium'' data) then js_get ''premium'' data else JNull)\<rparr>;
         this = (if js_in ''mfa_enabled'' data
                 then this\<lparr>mfaEnabled :=
                        (if is_boolean (js_get ''mfa_enabled'' data)
                         then js_get ''mfa_enabled'' data else JNull)\<rparr>
                 else if mfaEnabled this = JUndefined then this\<lparr>mfaEnabled := JNull\<rparr>
                 else this);
         this = this\<lparr>mobile :=
                  (if is_boolean (js_get ''mobile'' data) then js_get ''mobile'' data else JNull)\<rparr>;
         this = this\<lparr>settings :=
                  (if truthy (js_get ''user_settings'' data)
                   then Some (ClientUserSettings (js_get ''user_settings'' data)) else None)\<rparr>
     in case patch_guildSettings data of
          Inl e \<Rightarrow> Inl e
        | Inr gs \<Rightarrow>
            Inr (this\<lparr>guildSettings := gs\<rparr>,
                 if truthy (js_get ''token'' data) then js_get ''token'' data else client_token))"

text \<open>
  Modelled from the spec: the constructor of User is not among the sources. Constructing
  the entity runs the patch once over an entity with no field set, and nothing gives it a
  \<^verbatim>\<open>cache\<close> property; the constructor of ClientUser then sets the empty typing map.
\<close>

definition blank_ClientUser :: client_user where
  "blank_ClientUser =
    \<lparr>user_id = JUndefined, username = JUndefined, discriminator = JUndefined,
     avatar = JUndefined, bot_flag = JUndefined,
     typing_map = [], verified = JUndefined, email = JUndefined,
     friends = [], blocked = [], user_notes = [],
     premium = JUndefined, mfaEnabled = JUndefined, mobile = JUndefined,
     settings = None, guildSettings = [], cache = None\<rparr>"

definition new_ClientUser :: "obj \<Rightarrow> jsval \<Rightarrow> error + client_user \<times> jsval" where
  "new_ClientUser data client_token =
    (case ClientUser_patch data (blank_ClientUser, client_token) of
       Inl e \<Rightarrow> Inl e
     | Inr (this, client_token') \<Rightarrow> Inr (this\<lparr>typing_map := []\<rparr>, client_token'))"

text \<open>
  The entity a returning patch leaves, but for its guild settings, in closed form; it is
  proved below to be what the statements of \<^verbatim>\<open>_patch\<close> compute.
\<close>

definition patched_fields :: "obj \<Rightarrow> client_user \<Rightarrow> client_user" where
  "patched_fields data this =
    (User_patch data this)\<lparr>
      verified := (if js_in ''verified'' data then js_get ''verified'' data else verified this),
      email := js_get ''email'' data,
      friends := [], blocked := [], user_notes := [],
      premium := (if is_boolean (js_get ''premium'' data) then js_get ''premium'' data else JNull),
      mfaEnabled :=
        (if js_in ''mfa_enabled'' data
         then (if is_boolean (js_get ''mfa_enabled'' data) then js_get ''mfa_enabled'' data else JNull)
         else if mfaEnabled this = JUndefined then JNull else mfaEnabled this),
      mobile := (if is_boolean (js_get ''mobile'' data) then js_get ''mobile'' data else JNull),
      settings := (if truthy (js_get ''user_settings'' data)
                   then Some (ClientUserSettings (js_get ''user_settings'' data)) else None)\<rparr>"

section \<open>The client\<close>

text \<open>
  The state of the client these functions touch: the credential slot, the client user
  (\<^verbatim>\<open>null\<close> before the first handshake), the global user cache
  \<^verbatim>\<open>client.users.cache\<close>, and two logs standing for the external collaborators: the
  guilds registered and the shards whose \<^verbatim>\<open>checkReady\<close> was called.
\<close>

record client =
  token :: jsval
  user :: "client_user option"
  users :: "user_ref collection"
  guilds :: "obj list"
  checked_shards :: "jsval list"

text \<open>\<^verbatim>\<open>user.id\<close> of a reference, the client user being \<open>this\<close>.\<close>

fun ref_id :: "client_user \<Rightarrow> user_ref \<Rightarrow> jsval" where
  "ref_id this SelfRef = user_id this"
| "ref_id this (UserRef u) = user_id u"

text \<open>
  Modelled from the spec: \<^verbatim>\<open>client.users.add(data)\<close> (UserManager is not among the
  sources) resolves the user in the global user cache or inserts a new one under its
  id, and returns the cached reference.
\<close>

definition UserManager_add :: "obj \<Rightarrow> user_ref collection \<Rightarrow> user_ref \<times> user_ref collection" where
  "UserManager_add data users_cache =
    (case map_of users_cache (js_get ''id'' data) of
       Some existing \<Rightarrow> (existing, users_cache)
     | None \<Rightarrow> (UserRef (new_User data),
                coll_set (js_get ''id'' data) (UserRef (new_User data)) users_cache))"

text \<open>
  Modelled from the spec: \<^verbatim>\<open>client.guilds.add(guild)\<close> registers the guild in the
  client's guild registry, an external collaborator.
\<close>

definition GuildManager_add :: "obj \<Rightarrow> obj list \<Rightarrow> obj list" where
  "GuildManager_add guild registry = registry @ [guild]"

section \<open>The handshake handler\<close>

text \<open>
  The payload \<^verbatim>\<open>d\<close> of the handshake packet, with the shape of the interface: the user
  object, the guild and relationship arrays, the optional notes object (user id to raw
  note string, in the order \<^verbatim>\<open>for ... in\<close> visits it), and the two optional settings
  values (\<^verbatim>\<open>undefined\<close> when absent).
\<close>

record relationship =
  rel_user :: obj
  rel_type :: jsval

record ready_data =
  d_user :: obj
  d_guilds :: "obj list"
  d_relationships :: "relationship list"
  d_notes :: "(string \<times> string) list option"
  d_user_settings :: jsval
  d_user_guild_settings :: jsval

record packet =
  packet_d :: ready_data

record shard =
  shard_id :: jsval

text \<open>
  Lines 6 to 16: patch the existing client user, or attach the settings to the user
  payload, construct the client user and cache it under its id. The result is the new
  client together with its user.
\<close>

definition READY_user :: "client \<Rightarrow> ready_data \<Rightarrow> error + client \<times> client_user" where
  "READY_user client data =
    (case user client of
       Some this \<Rightarrow>
         (case ClientUser_patch (d_user data) (this, token client) of
            Inl e \<Rightarrow> Inl e
          | Inr (this', tok) \<Rightarrow> Inr (client\<lparr>token := tok, user := Some this'\<rparr>, this'))
     | None \<Rightarrow>
         (let data_user = js_put ''user_settings'' (d_user_settings data) (d_user data);
              data_user = js_put ''user_guild_settings'' (d_user_guild_settings data) data_user
          in case new_ClientUser data_user (token client) of
               Inl e \<Rightarrow> Inl e
             | Inr (clientUser, tok) \<Rightarrow>
                 Inr (client\<lparr>token := tok, user := Some clientUser,
                             users := coll_set (user_id clientUser) SelfRef (users client)\<rparr>,
                      clientUser)))"

text \<open>The body of the loop over \<^verbatim>\<open>data.relationships\<close>, on the client user and the user cache.\<close>

definition relation_step ::
  "client_user \<times> user_ref collection \<Rightarrow> relationship \<Rightarrow> client_user \<times> user_ref collection"
where
  "relation_step st relation =
    (let (this, users_cache) = st;
         (u, users_cache) = UserManager_add (rel_user relation) users_cache
     in if rel_type relation = JNum 1
        then (this\<lparr>friends := coll_set (ref_id this u) u (friends this)\<rparr>, users_cache)
        else if rel_type relation = JNum 2
        then (this\<lparr>blocked := coll_set (ref_id this u) u (blocked this)\<rparr>, users_cache)
        else (this, users_cache))"

text \<open>The body of the loop over \<^verbatim>\<open>data.notes\<close>.\<close>

definition note_step :: "client_user \<Rightarrow> string \<times> string \<Rightarrow> client_user" where
  "note_step this entry =
    (let (u, note) = entry;
         note = (if note = [] then JNull else JStr note)
     in this\<lparr>user_notes := coll_set (JStr u) note (user_notes this)\<rparr>)"

text \<open>\<^verbatim>\<open>shard.checkReady()\<close>, an external collaborator: the call is logged.\<close>

definition checkReady :: "shard \<Rightarrow> client \<Rightarrow> client" where
  "checkReady shard client = client\<lparr>checked_shards := checked_shards client @ [shard_id shard]\<rparr>"

text \<open>The handler of the handshake event, \<^verbatim>\<open>(client, { d: data }, shard) => ...\<close>.\<close>

definition READY_handler :: "client \<Rightarrow> packet \<Rightarrow> shard \<Rightarrow> error + client" where
  "READY_handler client pkt shard =
    (let data = packet_d pkt
     in case READY_user client data of
          Inl e \<Rightarrow> Inl e
        | Inr (client, this) \<Rightarrow>
            (let client = client\<lparr>guilds :=
                    foldl (\<lambda>registry guild.
                             GuildManager_add (js_put ''shardID'' (shard_id shard) guild) registry)
                          (guilds client) (d_guilds data)\<rparr>;
                 (this, users_cache) = foldl relation_step (this, users client) (d_relationships data);
                 this = (case d_notes data of
                           None \<Rightarrow> this
                         | Some entries \<Rightarrow> foldl note_step this entries);
                 client = client\<lparr>user := Some this, users := users_cache\<rparr>
             in Inr (checkReady shard client)))"

section \<open>The note update action\<close>

record note_event =
  ev_id :: jsval
  ev_note :: string

record note_result =
  old :: jsval
  updated :: jsval

record notification =
  event_name :: string
  event_args :: "jsval list"

text \<open>
  \<^verbatim>\<open>client.emit(...)\<close> calls every listener synchronously, in order, on the state of
  that moment; a listener is an observer that reads the client, and what each one read is
  collected. Constants is not among the sources: the name of the event is the one its
  documentation gives, \<^verbatim>\<open>Client#userNoteUpdate\<close>.
\<close>

definition emit :: "(notification \<Rightarrow> client \<Rightarrow> 'r) list \<Rightarrow> notification \<Rightarrow> client \<Rightarrow> 'r list" where
  "emit listeners n client = map (\<lambda>listener. listener n client) listeners"

text \<open>
  \<^verbatim>\<open>UserNoteUpdateAction.handle(data)\<close>. It reaches the notes through
  \<^verbatim>\<open>client.user.cache.notes\<close>: reading \<^verbatim>\<open>cache\<close> of a \<^verbatim>\<open>null\<close> client user, or
  \<^verbatim>\<open>notes\<close> of an undefined \<^verbatim>\<open>cache\<close>, throws. The result is what the call returns or
  throws, what the listeners observed, and the client afterwards.
\<close>

definition UserNoteUpdateAction_handle ::
  "(notification \<Rightarrow> client \<Rightarrow> 'r) list \<Rightarrow> note_event \<Rightarrow> client
     \<Rightarrow> (error + note_result) \<times> 'r list \<times> client"
where
  "UserNoteUpdateAction_handle listeners data client =
    (case user client of
       None \<Rightarrow> (Inl TypeError, [], client)
     | Some this \<Rightarrow>
         (case cache this of
            None \<Rightarrow> (Inl TypeError, [], client)
          | Some c \<Rightarrow>
              (let oldNote = coll_get (cache_notes c) (ev_id data);
                   note = (if ev_note data \<noteq> [] then JStr (ev_note data) else JNull);
                   c = c\<lparr>cache_notes := coll_set (ev_id data) note (cache_notes c)\<rparr>;
                   client = client\<lparr>user := Some (this\<lparr>cache := Some c\<rparr>)\<rparr>;
                   seen = emit listeners
                            \<lparr>event_name = ''userNoteUpdate'', event_args = [ev_id data, oldNote, note]\<rparr>
                            client
               in (Inr \<lparr>old = oldNote, updated = note\<rparr>, seen, client))))"

section \<open>Editing the profile\<close>

text \<open>\<^verbatim>\<open>typeof x === 'object'\<close>.\<close>

fun is_object :: "jsval \<Rightarrow> bool" where
  "is_object JNull = True"
| "is_object (JArr xs) = True"
| "is_object (JObj kvs) = True"
| "is_object v = False"

text \<open>The request body \<^verbatim>\<open>edit\<close> makes of \<^verbatim>\<open>data\<close> and \<^verbatim>\<open>passcode\<close> before the request.\<close>

definition edit_body :: "jsval \<Rightarrow> obj \<Rightarrow> jsval \<Rightarrow> error + obj" where
  "edit_body is_bot data passcode =
    (if \<not> truthy is_bot
     then (if \<not> is_object passcode
           then Inr (js_put ''password'' passcode data)
           else (case js_member ''mfaCode'' passcode of
                   Inl e \<Rightarrow> Inl e
                 | Inr code \<Rightarrow>
                     (case js_member ''password'' passcode of
                        Inl e \<Rightarrow> Inl e
                      | Inr password \<Rightarrow> Inr (js_put ''password'' password (js_put ''code'' code data)))))
     else Inr data)"

text \<open>
  \<^verbatim>\<open>ClientUser.edit(data, passcode)\<close> on the client user. The two collaborators that
  are not among the sources are parameters: \<open>api_patch\<close> is the outcome of the
  \<^verbatim>\<open>PATCH /users/@me\<close> request for a body (the parsed response, or the error it rejects
  with), and \<open>UserUpdate_handle\<close> is \<^verbatim>\<open>client.actions.UserUpdate.handle\<close>, which
  returns its \<^verbatim>\<open>updated\<close> user, if any, and the client it leaves. The result is the
  outcome of the returned promise and the client afterwards.
\<close>

definition ClientUser_edit ::
  "(obj \<Rightarrow> string + obj) \<Rightarrow> (obj \<Rightarrow> client \<Rightarrow> user_ref option \<times> client) \<Rightarrow> obj \<Rightarrow> jsval \<Rightarrow> client
     \<Rightarrow> (error + user_ref) \<times> client"
where
  "ClientUser_edit api_patch UserUpdate_handle data passcode client =
    (case user client of
       None \<Rightarrow> (Inl TypeError, client)
     | Some this \<Rightarrow>
         (case edit_body (bot_flag this) data passcode of
            Inl e \<Rightarrow> (Inl e, client)
          | Inr body \<Rightarrow>
              (case api_patch body of
                 Inl err \<Rightarrow> (Inl (RequestError err), client)
               | Inr newData \<Rightarrow>
                   (let client = client\<lparr>token := js_get ''token'' newData\<rparr>;
                        (updated, client) = UserUpdate_handle newData client
                    in (Inr (case updated of Some u \<Rightarrow> u | None \<Rightarrow> SelfRef), client)))))"

section \<open>The client application\<close>

text \<open>
  Team is not among the sources: an instance is the payload it was constructed from.
  The owner of an application is a team, a user of the global user cache, or \<^verbatim>\<open>null\<close>.
\<close>

datatype team = Team jsval

datatype app_owner = NoOwner | SoleOwner user_ref | TeamOwner team

text \<open>
  ClientApplication: the fields its \<^verbatim>\<open>_patch\<close> assigns, and those of the Application
  it extends, which is not among the sources, as \<open>app_base\<close>.
\<close>

record 'b client_application =
  app_base :: 'b
  cover :: jsval
  rpcOrigins :: jsval
  botRequireCodeGrant :: jsval
  botPublic :: jsval
  owner :: app_owner

text \<open>
  \<^verbatim>\<open>ClientApplication._patch(data)\<close>, on the application and the global user cache; the
  patch of the parent class is the parameter \<open>Application_patch\<close>.
\<close>

definition ClientApplication_patch ::
  "(obj \<Rightarrow> 'b \<Rightarrow> 'b) \<Rightarrow> obj \<Rightarrow> 'b client_application \<times> user_ref collection
     \<Rightarrow> 'b client_application \<times> user_ref collection"
where
  "ClientApplication_patch Application_patch data st =
    (let (this, users_cache) = st;
         this = this\<lparr>app_base := Application_patch data (app_base this)\<rparr>;
         this = this\<lparr>cover :=
                  (if truthy (js_get ''cover_image'' data) then js_get ''cover_image'' data else JNull)\<rparr>;
         this = this\<lparr>rpcOrigins :=
                  (if truthy (js_get ''rpc_origins'' data) then js_get ''rpc_origins'' data else JArr [])\<rparr>;
         this = this\<lparr>botRequireCodeGrant :=
                  (if js_get ''bot_require_code_grant'' data \<noteq> JUndefined
                   then js_get ''bot_require_code_grant'' data else JNull)\<rparr>;
         this = this\<lparr>botPublic :=
                  (if js_get ''bot_public'' data \<noteq> JUndefined then js_get ''bot_public'' data else JNull)\<rparr>
     in if truthy (js_get ''team'' data)
        then (this\<lparr>owner := TeamOwner (Team (js_get ''team'' data))\<rparr>, users_cache)
        else if truthy (js_get ''owner'' data)
        then (let (u, users_cache) = UserManager_add (js_fields (js_get ''owner'' data)) users_cache
              in (this\<lparr>owner := SoleOwner u\<rparr>, users_cache))
        else (this\<lparr>owner := NoOwner\<rparr>, users_cache))"

section \<open>Reachable user caches\<close>

text \<open>The id of the user a relationship record refers to, \<^verbatim>\<open>relation.user.id\<close>.\<close>

definition relation_user_id :: "relationship \<Rightarrow> jsval" where
  "relation_user_id relation = js_get ''id'' (rel_user relation)"

text \<open>
  In the global user cache every user is stored under its own id (the client user's id
  being that of \<open>this\<close>). The cache starts empty, and \<^verbatim>\<open>add\<close> and line 15 of
  the handler only store users that way.
\<close>

definition users_keyed :: "client_user \<Rightarrow> user_ref collection \<Rightarrow> bool" where
  "users_keyed this users_cache = list_all (\<lambda>entry. ref_id this (snd entry) = fst entry) users_cache"

text \<open>The same of a client, whose user may not exist yet.\<close>

definition cache_keyed_by_id :: "client \<Rightarrow> bool" where
  "cache_keyed_by_id client =
    list_all (\<lambda>entry. case snd entry of
                UserRef u \<Rightarrow> user_id u = fst entry
              | SelfRef \<Rightarrow> map_option user_id (user client) = Some (fst entry))
             (users client)"

text \<open>A handshake of the account the client is already logged in as: the id does not change.\<close>

definition same_account :: "client \<Rightarrow> ready_data \<Rightarrow> bool" where
  "same_account client data =
    (case user client of
       None \<Rightarrow> True
     | Some this \<Rightarrow> if js_in ''id'' (d_user data) then js_get ''id'' (d_user data) = user_id this else True)"

text \<open>Two handshakes with the same payload, as from two shards or on a reconnect.\<close>

definition READY_twice :: "client \<Rightarrow> packet \<Rightarrow> shard \<Rightarrow> error + client" where
  "READY_twice client pkt shard =
    (case READY_handler client pkt shard of
       Inl e \<Rightarrow> Inl e
     | Inr client' \<Rightarrow> READY_handler client' pkt shard)"

section \<open>Example states\<close>

text \<open>
  A client user with a friend, a blocked user and a note, as a handshake with these
  relationships and notes leaves it.
\<close>

definition example_user :: client_user where
  "example_user =
    blank_ClientUser\<lparr>
      user_id := JStr ''1'', verified := JBool True, email := JStr ''a@b.c'',
      friends := [(JStr ''2'', UserRef (new_User [(''id'', JStr ''2'')]))],
      blocked := [(JStr ''3'', UserRef (new_User [(''id'', JStr ''3'')]))],
      user_notes := [(JStr ''2'', JStr ''hi'')],
      premium := JBool True, mfaEnabled := JBool False, mobile := JBool True\<rparr>"

text \<open>A client before its first handshake, and one after a handshake that left the example user.\<close>

definition fresh_client :: client where
  "fresh_client = \<lparr>token = JStr ''T0'', user = None, users = [], guilds = [], checked_shards = []\<rparr>"

definition example_client :: client where
  "example_client =
    \<lparr>token = JStr ''T0'', user = Some example_user,
     users = [(JStr ''1'', SelfRef),
              (JStr ''2'', UserRef (new_User [(''id'', JStr ''2'')])),
              (JStr ''3'', UserRef (new_User [(''id'', JStr ''3'')]))],
     guilds = [], checked_shards = [JNum 0]\<rparr>"

text \<open>A shard, and a handshake packet that has a relationship and no \<^verbatim>\<open>notes\<close> key.\<close>

definition shard0 :: shard where
  "shard0 = \<lparr>shard_id = JNum 0\<rparr>"

definition packet_without_notes :: packet where
  "packet_without_notes =
    \<lparr>packet_d =
      \<lparr>d_user = [(''id'', JStr ''1''), (''verified'', JBool True)],
       d_guilds = [],
       d_relationships = [\<lparr>rel_user = [(''id'', JStr ''2'')], rel_type = JNum 1\<rparr>],
       d_notes = None,
       d_user_settings = JUndefined,
       d_user_guild_settings = JUndefined\<rparr>\<rparr>"

text \<open>
  A full handshake packet: the relationships of the spec's example (a friend, a blocked
  user, and a user with an unknown relation type), notes, settings and guild settings.
\<close>

definition example_packet :: packet where
  "example_packet =
    \<lparr>packet_d =
      \<lparr>d_user = [(''id'', JStr ''1''), (''username'', JStr ''me'')],
       d_guilds = [[(''id'', JStr ''g'')]],
       d_relationships =
         [\<lparr>rel_user = [(''id'', JStr ''A'')], rel_type = JNum 1\<rparr>,
          \<lparr>rel_user = [(''id'', JStr ''B'')], rel_type = JNum 2\<rparr>,
          \<lparr>rel_user = [(''id'', JStr ''C'')], rel_type = JNum 99\<rparr>],
       d_notes = Some [(''A'', ''hi''), (''B'', [])],
       d_user_settings = JObj [(''theme'', JStr ''dark'')],
       d_user_guild_settings = JArr [JObj [(''guild_id'', JStr ''g''), (''muted'', JBool True)]]\<rparr>\<rparr>"

text \<open>The client that the handshake with the example packet makes of the new client.\<close>

definition bootstrapped_client :: client where
  "bootstrapped_client =
    \<lparr>token = JStr ''T0'',
     user = Some
       (blank_ClientUser\<lparr>
          user_id := JStr ''1'', username := JStr ''me'',
          friends := [(JStr ''A'', UserRef (new_User [(''id'', JStr ''A'')]))],
          blocked := [(JStr ''B'', UserRef (new_User [(''id'', JStr ''B'')]))],
          user_notes := [(JStr ''A'', JStr ''hi''), (JStr ''B'', JNull)],
          premium := JNull, mfaEnabled := JNull, mobile := JNull,
          settings := Some (ClientUserSettings (JObj [(''theme'', JStr ''dark'')])),
          guildSettings :=
            [(JStr ''g'',
              ClientUserGuildSettings (JObj [(''guild_id'', JStr ''g''), (''muted'', JBool True)]))]\<rparr>),
     users = [(JStr ''1'', SelfRef),
              (JStr ''A'', UserRef (new_User [(''id'', JStr ''A'')])),
              (JStr ''B'', UserRef (new_User [(''id'', JStr ''B'')])),
              (JStr ''C'', UserRef (new_User [(''id'', JStr ''C'')]))],
     guilds = [[(''id'', JStr ''g''), (''shardID'', JNum 0)]],
     checked_shards = [JNum 0]\<rparr>"

text \<open>
  An observer of the note update event that reads the note of the notified user from the
  client user's notes, \<^verbatim>\<open>client.user.notes.get(userId)\<close>.
\<close>

definition notes_observer :: "notification \<Rightarrow> client \<Rightarrow> jsval" where
  "notes_observer n client =
    (case (user client, event_args n) of
       (Some this, userId # args) \<Rightarrow> coll_get (user_notes this) userId
     | _ \<Rightarrow> JUndefined)"

text \<open>The same client, were its user to have a \<^verbatim>\<open>cache\<close> object with an empty notes collection.\<close>

definition with_empty_cache :: "client \<Rightarrow> client" where
  "with_empty_cache client =
    client\<lparr>user := map_option (\<lambda>this. this\<lparr>cache := Some \<lparr>cache_notes = []\<rparr>\<rparr>) (user client)\<rparr>"

text \<open>
  A request that is rejected, and an update action that would merge the response into the
  client user.
\<close>

definition failing_api :: "obj \<Rightarrow> string + obj" where
  "failing_api body = Inl ''401: Unauthorized''"

definition rotating_UserUpdate_handle :: "obj \<Rightarrow> client \<Rightarrow> user_ref option \<times> client" where
  "rotating_UserUpdate_handle newData client =
    (Some SelfRef, client\<lparr>user := map_option (User_patch newData) (user client)\<rparr>)"

text \<open>An application with no field set, and a parent class whose patch assigns nothing.\<close>

definition blank_application :: "unit client_application" where
  "blank_application =
    \<lparr>app_base = (), cover = JUndefined, rpcOrigins = JUndefined, botRequireCodeGrant = JUndefined,
     botPublic = JUndefined, owner = NoOwner\<rparr>"

definition no_Application_patch :: "obj \<Rightarrow> unit \<Rightarrow> unit" where
  "no_Application_patch data base = base"

text \<open>
  A handshake packet of the example client's account whose relationship records carry
  user data: one names a user the client has cached already, three name new users.
\<close>

definition classification_packet :: packet where
  "classification_packet =
    \<lparr>packet_d =
      \<lparr>d_user = [(''id'', JStr ''1''), (''username'', JStr ''me'')],
       d_guilds = [],
       d_relationships =
         [\<lparr>rel_user = [(''id'', JStr ''2''), (''username'', JStr ''two'')], rel_type = JNum 1\<rparr>,
          \<lparr>rel_user = [(''id'', JStr ''A''), (''username'', JStr ''alice'')], rel_type = JNum 1\<rparr>,
          \<lparr>rel_user = [(''id'', JStr ''B''), (''username'', JStr ''bob'')], rel_type = JNum 2\<rparr>,
          \<lparr>rel_user = [(''id'', JStr ''C''), (''username'', JStr ''carol'')], rel_type = JNum 99\<rparr>],
       d_notes = None,
       d_user_settings = JUndefined,
       d_user_guild_settings = JUndefined\<rparr>\<rparr>"

section \<open>The patch in closed form\<close>

lemma if_update_user:
  "(if c then r\<lparr>user_id := v\<rparr> else r) = r\<lparr>user_id := (if c then v else user_id r)\<rparr>"
  "(if c then r\<lparr>username := v\<rparr> else r) = r\<lparr>username := (if c then v else username r)\<rparr>"
  "(if c then r\<lparr>discriminator := v\<rparr> else r) = r\<lparr>discriminator := (if c then v else discriminator r)\<rparr>"
  "(if c then r\<lparr>avatar := v\<rparr> else r) = r\<lparr>avatar := (if c then v else avatar r)\<rparr>"
  "(if c then r\<lparr>bot_flag := v\<rparr> else r) = r\<lparr>bot_flag := (if c then v else bot_flag r)\<rparr>"
  by simp_all

lemma User_patch_eq:
  "User_patch data this = this\<lparr>
     user_id := (if js_in ''id'' data then js_get ''id'' data else user_id this),
     username := (if js_in ''username'' data then js_get ''username'' data else username this),
     discriminator :=
       (if js_in ''discriminator'' data then js_get ''discriminator'' data else discriminator this),
     avatar := (if js_in ''avatar'' data then js_get ''avatar'' data else avatar this),
     bot_flag := (if js_in ''bot'' data then js_get ''bot'' data else bot_flag this)\<rparr>"
  unfolding User_patch_def Let_def if_update_user by simp

lemma User_patch_sel [simp]:
  "typing_map (User_patch data this) = typing_map this"
  "verified (User_patch data this) = verified this"
  "email (User_patch data this) = email this"
  "friends (User_patch data this) = friends this"
  "blocked (User_patch data this) = blocked this"
  "user_notes (User_patch data this) = user_notes this"
  "premium (User_patch data this) = premium this"
  "mfaEnabled (User_patch data this) = mfaEnabled this"
  "mobile (User_patch data this) = mobile this"
  "settings (User_patch data this) = settings this"
  "guildSettings (User_patch data this) = guildSettings this"
  "cache (User_patch data this) = cache this"
  by (simp_all add: User_patch_eq)

lemma if_update_client_user:
  "(if c then r\<lparr>verified := v\<rparr> else r) = r\<lparr>verified := (if c then v else verified r)\<rparr>"
  "(if c then r\<lparr>mfaEnabled := v\<rparr> else r) = r\<lparr>mfaEnabled := (if c then v else mfaEnabled r)\<rparr>"
  by simp_all

lemma ClientUser_patch_eq:
  "ClientUser_patch data (this, tok) =
    (case patch_guildSettings data of
       Inl e \<Rightarrow> Inl e
     | Inr gs \<Rightarrow> Inr ((patched_fields data this)\<lparr>guildSettings := gs\<rparr>,
                      if truthy (js_get ''token'' data) then js_get ''token'' data else tok))"
  unfolding ClientUser_patch_def patched_fields_def Let_def prod.case if_update_client_user
  by (cases "js_in ''mfa_enabled'' data") (simp_all split del: if_split cong: if_cong sum.case_cong)

lemma js_get_put: "js_get k (js_put k' v data) = (if k = k' then v else js_get k data)"
  by (simp add: js_get_def js_put_def update_conv')

lemma js_in_put: "js_in k (js_put k' v data) = (k = k' \<or> js_in k data)"
  by (simp add: js_in_def js_put_def update_conv')

lemma js_get_absent: "\<not> js_in k data \<Longrightarrow> js_get k data = JUndefined"
  by (simp add: js_in_def js_get_def)

lemma patched_fields_sel [simp]:
  "verified (patched_fields data this) =
     (if js_in ''verified'' data then js_get ''verified'' data else verified this)"
  "email (patched_fields data this) = js_get ''email'' data"
  "friends (patched_fields data this) = []"
  "blocked (patched_fields data this) = []"
  "user_notes (patched_fields data this) = []"
  "premium (patched_fields data this) =
     (if is_boolean (js_get ''premium'' data) then js_get ''premium'' data else JNull)"
  "mfaEnabled (patched_fields data this) =
     (if js_in ''mfa_enabled'' data
      then (if is_boolean (js_get ''mfa_enabled'' data) then js_get ''mfa_enabled'' data else JNull)
      else if mfaEnabled this = JUndefined then JNull else mfaEnabled this)"
  "mobile (patched_fields data this) =
     (if is_boolean (js_get ''mobile'' data) then js_get ''mobile'' data else JNull)"
  "settings (patched_fields data this) =
     (if truthy (js_get ''user_settings'' data)
      then Some (ClientUserSettings (js_get ''user_settings'' data)) else None)"
  "typing_map (patched_fields data this) = typing_map this"
  "cache (patched_fields data this) = cache this"
  "user_id (patched_fields data this) = (if js_in ''id'' data then js_get ''id'' data else user_id this)"
  by (simp_all add: patched_fields_def User_patch_eq)

lemma ClientUser_patch_InrE:
  assumes "ClientUser_patch data (this, tok) = Inr (this', tok')"
  obtains gs where "patch_guildSettings data = Inr gs"
    and "this' = (patched_fields data this)\<lparr>guildSettings := gs\<rparr>"
    and "tok' = (if truthy (js_get ''token'' data) then js_get ''token'' data else tok)"
  using assms unfolding ClientUser_patch_eq by (cases "patch_guildSettings data") simp_all

text \<open>The patch returns on every payload whose guild settings are absent or an array of objects.\<close>

lemma guildSettings_loop_returns:
  assumes "\<forall>s \<in> set ss. \<exists>kvs. s = JObj kvs"
  shows "\<exists>gs. guildSettings_loop ss acc = Inr gs"
  using assms by (induction ss arbitrary: acc) auto

lemma patch_guildSettings_returns:
  assumes "\<not> truthy (js_get ''user_guild_settings'' data)
         \<or> (\<exists>ss. js_get ''user_guild_settings'' data = JArr ss \<and> (\<forall>s \<in> set ss. \<exists>kvs. s = JObj kvs))"
  shows "\<exists>gs. patch_guildSettings data = Inr gs"
  using assms guildSettings_loop_returns [of _ "[]"]
  by (auto simp: patch_guildSettings_def)

lemma ClientUser_patch_returns:
  assumes "\<not> truthy (js_get ''user_guild_settings'' data)
         \<or> (\<exists>ss. js_get ''user_guild_settings'' data = JArr ss \<and> (\<forall>s \<in> set ss. \<exists>kvs. s = JObj kvs))"
  shows "\<exists>this' tok'. ClientUser_patch data (this, tok) = Inr (this', tok')"
proof -
  from patch_guildSettings_returns [OF assms] obtain gs where "patch_guildSettings data = Inr gs" ..
  then show ?thesis by (simp add: ClientUser_patch_eq)
qed

text \<open>
  C10: whatever the payload and the prior state, when \<^verbatim>\<open>ClientUser._patch\<close> returns the
  friends, blocked and notes collections of the entity are new, empty collections: what
  was cached in them before the patch is gone.
\<close>

theorem patch_discards_relationship_caches:
  assumes "ClientUser_patch data (this, tok) = Inr (this', tok')"
  shows "friends this' = [] \<and> blocked this' = [] \<and> user_notes this' = []"
proof -
  from assms obtain gs where "this' = (patched_fields data this)\<lparr>guildSettings := gs\<rparr>"
    by (rule ClientUser_patch_InrE)
  then show ?thesis by simp
qed

lemma patch_guildSettings_empty [simp]: "patch_guildSettings [(''verified'', v)] = Inr []"
  by (simp add: patch_guildSettings_def js_get_def)

theorem patch_discards_relationship_caches_witness:
  "ClientUser_patch [(''verified'', JBool False)] (example_user, JNull)
     = Inr ((patched_fields [(''verified'', JBool False)] example_user)\<lparr>guildSettings := []\<rparr>, JNull)
   \<and> friends example_user \<noteq> [] \<and> blocked example_user \<noteq> [] \<and> user_notes example_user \<noteq> []
   \<and> friends ((patched_fields [(''verified'', JBool False)] example_user)\<lparr>guildSettings := []\<rparr>) = []
   \<and> blocked ((patched_fields [(''verified'', JBool False)] example_user)\<lparr>guildSettings := []\<rparr>) = []
   \<and> user_notes ((patched_fields [(''verified'', JBool False)] example_user)\<lparr>guildSettings := []\<rparr>) = []"
proof -
  have h: "ClientUser_patch [(''verified'', JBool False)] (example_user, JNull)
     = Inr ((patched_fields [(''verified'', JBool False)] example_user)\<lparr>guildSettings := []\<rparr>, JNull)"
    by (simp add: ClientUser_patch_eq js_get_def)
  have "friends example_user \<noteq> [] \<and> blocked example_user \<noteq> [] \<and> user_notes example_user \<noteq> []"
    by (simp add: example_user_def)
  with h patch_discards_relationship_caches [OF h] show ?thesis by simp
qed

lemma patch_guildSettings_put_token [simp]:
  "patch_guildSettings (js_put ''token'' t data) = patch_guildSettings data"
  by (simp add: patch_guildSettings_def js_get_put)

lemma patched_fields_put_token [simp]:
  "patched_fields (js_put ''token'' t data) this = patched_fields data this"
  by (simp add: patched_fields_def User_patch_eq js_get_put js_in_put)

text \<open>
  C6: for every payload on which \<^verbatim>\<open>ClientUser._patch\<close> returns, a truthy
  \<^verbatim>\<open>data.token\<close> is written to the credential slot \<^verbatim>\<open>client.token\<close>, a payload
  without one leaves the slot as it was, and the token is stored in no field of the
  entity: the entity after the patch is the same whatever token the payload carries.
\<close>

theorem patch_forwards_token:
  assumes "ClientUser_patch data (this, tok) = Inr (this', tok')"
  shows "(truthy (js_get ''token'' data) \<longrightarrow> tok' = js_get ''token'' data)
       \<and> (\<not> truthy (js_get ''token'' data) \<longrightarrow> tok' = tok)
       \<and> (\<forall>t. map_sum id fst (ClientUser_patch (js_put ''token'' t data) (this, tok)) = Inr this')"
proof -
  from assms obtain gs where gs: "patch_guildSettings data = Inr gs"
    and this': "this' = (patched_fields data this)\<lparr>guildSettings := gs\<rparr>"
    and tok': "tok' = (if truthy (js_get ''token'' data) then js_get ''token'' data else tok)"
    by (rule ClientUser_patch_InrE)
  have "map_sum id fst (ClientUser_patch (js_put ''token'' t data) (this, tok)) = Inr this'" for t
    by (simp add: ClientUser_patch_eq gs this')
  with tok' show ?thesis by simp
qed

theorem patch_forwards_token_witness:
  "ClientUser_patch [(''verified'', JBool False), (''token'', JStr ''T2'')] (example_user, JStr ''T1'')
     = Inr ((patched_fields [(''verified'', JBool False)] example_user)\<lparr>guildSettings := []\<rparr>, JStr ''T2'')
   \<and> ClientUser_patch [(''verified'', JBool False)] (example_user, JStr ''T1'')
     = Inr ((patched_fields [(''verified'', JBool False)] example_user)\<lparr>guildSettings := []\<rparr>, JStr ''T1'')"
proof -
  let ?d = "[(''verified'', JBool False)]"
  let ?r = "(patched_fields ?d example_user)\<lparr>guildSettings := []\<rparr>"
  have h: "ClientUser_patch ?d (example_user, JStr ''T1'') = Inr (?r, JStr ''T1'')"
    by (simp add: ClientUser_patch_eq js_get_def)
  have p: "js_put ''token'' (JStr ''T2'') ?d = [(''verified'', JBool False), (''token'', JStr ''T2'')]"
    by (simp add: js_put_def)
  have g: "patch_guildSettings [(''verified'', JBool False), (''token'', JStr ''T2'')] = Inr []"
    by (simp add: patch_guildSettings_def js_get_def)
  from patch_forwards_token [OF h]
  have "map_sum id fst (ClientUser_patch (js_put ''token'' (JStr ''T2'') ?d) (example_user, JStr ''T1'')) = Inr ?r"
    by blast
  then have "ClientUser_patch [(''verified'', JBool False), (''token'', JStr ''T2'')] (example_user, JStr ''T1'')
     = Inr (?r, JStr ''T2'')"
    unfolding p by (simp add: ClientUser_patch_eq g js_get_def)
  with h show ?thesis by simp
qed




section \<open>The handshake\<close>

lemma new_ClientUser_InrE:
  assumes "new_ClientUser data tok = Inr (this', tok')"
  obtains gs where "patch_guildSettings data = Inr gs"
    and "this' = (patched_fields data blank_ClientUser)\<lparr>guildSettings := gs, typing_map := []\<rparr>"
    and "tok' = (if truthy (js_get ''token'' data) then js_get ''token'' data else tok)"
  using assms unfolding new_ClientUser_def ClientUser_patch_eq
  by (cases "patch_guildSettings data") auto

lemma READY_user_Inr:
  assumes "READY_user client data = Inr (client1, this1)"
  shows "user client1 = Some this1"
    and "friends this1 = []" and "blocked this1 = []" and "user_notes this1 = []"
    and "guilds client1 = guilds client" and "checked_shards client1 = checked_shards client"
proof -
  show "user client1 = Some this1"
    using assms by (auto simp: READY_user_def Let_def split: option.splits sum.splits)
  show "guilds client1 = guilds client"
    using assms by (auto simp: READY_user_def Let_def split: option.splits sum.splits)
  show "checked_shards client1 = checked_shards client"
    using assms by (auto simp: READY_user_def Let_def split: option.splits sum.splits)
  show "friends this1 = []"
    using assms
    by (auto simp: READY_user_def Let_def split: option.splits sum.splits
        elim!: ClientUser_patch_InrE new_ClientUser_InrE)
  show "blocked this1 = []"
    using assms
    by (auto simp: READY_user_def Let_def split: option.splits sum.splits
        elim!: ClientUser_patch_InrE new_ClientUser_InrE)
  show "user_notes this1 = []"
    using assms
    by (auto simp: READY_user_def Let_def split: option.splits sum.splits
        elim!: ClientUser_patch_InrE new_ClientUser_InrE)
qed

lemma relation_step_frame [simp]:
  "user_notes (fst (relation_step st r)) = user_notes (fst st)"
  "user_id (fst (relation_step st r)) = user_id (fst st)"
  "settings (fst (relation_step st r)) = settings (fst st)"
  "guildSettings (fst (relation_step st r)) = guildSettings (fst st)"
  by (simp_all add: relation_step_def Let_def case_prod_beta)

lemma relationships_frame [simp]:
  "user_notes (fst (foldl relation_step st rels)) = user_notes (fst st)"
  "user_id (fst (foldl relation_step st rels)) = user_id (fst st)"
  "settings (fst (foldl relation_step st rels)) = settings (fst st)"
  "guildSettings (fst (foldl relation_step st rels)) = guildSettings (fst st)"
  by (induction rels arbitrary: st) simp_all

lemma READY_handler_InrE:
  assumes "READY_handler client pkt shard = Inr client'"
  obtains client1 this1 where
    "READY_user client (packet_d pkt) = Inr (client1, this1)"
    and "user client' =
           Some (case d_notes (packet_d pkt) of
                   None \<Rightarrow> fst (foldl relation_step (this1, users client1) (d_relationships (packet_d pkt)))
                 | Some entries \<Rightarrow>
                     foldl note_step
                       (fst (foldl relation_step (this1, users client1) (d_relationships (packet_d pkt))))
                       entries)"
    and "users client' = snd (foldl relation_step (this1, users client1) (d_relationships (packet_d pkt)))"
    and "token client' = token client1"
    and "checked_shards client' = checked_shards client1 @ [shard_id shard]"
proof (cases "READY_user client (packet_d pkt)")
  case (Inl e)
  with assms show ?thesis by (simp add: READY_handler_def)
next
  case (Inr r)
  obtain client1 this1 where r: "r = (client1, this1)" by (cases r)
  show ?thesis
  proof (rule that [of client1 this1])
    show "READY_user client (packet_d pkt) = Inr (client1, this1)" using Inr r by simp
  qed (use assms Inr r in
       \<open>auto simp: READY_handler_def Let_def checkReady_def case_prod_beta split: option.splits\<close>)
qed

lemmas example_defs = fresh_client_def example_client_def shard0_def packet_without_notes_def
  example_packet_def example_user_def blank_ClientUser_def

lemmas eval_defs = READY_handler_def READY_user_def new_ClientUser_def ClientUser_patch_eq
  patched_fields_def User_patch_eq patch_guildSettings_def relation_step_def note_step_def
  UserManager_add_def GuildManager_add_def checkReady_def new_User_def
  js_get_def js_in_def js_put_def coll_set_def coll_get_def Let_def

text \<open>
  C7 as stated fails: a client user holding a note goes through a handshake whose
  payload has no \<^verbatim>\<open>notes\<close> key, and the note is gone afterwards.
\<close>

theorem handshake_without_notes_counterexample:
  "d_notes (packet_d packet_without_notes) = None
   \<and> map_option user_notes (user example_client) = Some [(JStr ''2'', JStr ''hi'')]
   \<and> map_sum id (map_option user_notes \<circ> user) (READY_handler example_client packet_without_notes shard0)
       = Inr (Some [])"
  by (simp add: example_defs eval_defs)

text \<open>
  C7, amended: for every handshake payload without the \<^verbatim>\<open>notes\<close> key the handler sets
  no note, and the notes mapping after the handshake is the empty collection the patch
  (on a first handshake, the construction) has just created; notes cached before a
  repeated handshake are not kept.
\<close>

theorem handshake_without_notes_amended:
  assumes "d_notes (packet_d pkt) = None"
    and "READY_handler client pkt shard = Inr client'"
  shows "map_option user_notes (user client') = Some []"
proof -
  from assms(2) obtain client1 this1 where
    u: "READY_user client (packet_d pkt) = Inr (client1, this1)"
    and c': "user client' =
           Some (case d_notes (packet_d pkt) of
                   None \<Rightarrow> fst (foldl relation_step (this1, users client1) (d_relationships (packet_d pkt)))
                 | Some entries \<Rightarrow>
                     foldl note_step
                       (fst (foldl relation_step (this1, users client1) (d_relationships (packet_d pkt))))
                       entries)"
    by (rule READY_handler_InrE)
  from u have "user_notes this1 = []" by (rule READY_user_Inr)
  with c' assms(1) show ?thesis by simp
qed

theorem handshake_without_notes_amended_witness:
  "d_notes (packet_d packet_without_notes) = None
   \<and> map_sum id (map_option user_notes \<circ> user) (READY_handler fresh_client packet_without_notes shard0)
       = Inr (Some [])"
proof -
  have h1: "d_notes (packet_d packet_without_notes) = None"
    by (simp add: packet_without_notes_def)
  have "\<exists>c'. READY_handler fresh_client packet_without_notes shard0 = Inr c'"
    by (simp add: example_defs eval_defs)
  then obtain c' where h2: "READY_handler fresh_client packet_without_notes shard0 = Inr c'" ..
  from handshake_without_notes_amended [OF h1 h2] h1 h2 show ?thesis by simp
qed

section \<open>Relationship classification\<close>

lemma coll_keys_set [simp]: "coll_keys (coll_set k v c) = insert k (coll_keys c)"
  by (simp add: coll_keys_def coll_set_def dom_update)

lemma map_of_coll_set [simp]: "map_of (coll_set k v c) = (map_of c)(k \<mapsto> v)"
  by (simp add: coll_set_def update_conv')

lemma coll_keys_Nil [simp]: "coll_keys [] = {}"
  by (simp add: coll_keys_def)

lemma user_id_new_User [simp]: "user_id (new_User data) = js_get ''id'' data"
  by (simp add: new_User_def User_patch_eq js_in_def js_get_def split: option.splits)

lemma list_all_update:
  "list_all P al \<Longrightarrow> P (k, v) \<Longrightarrow> list_all P (AList.update k v al)"
  by (induction al) auto

lemma users_keyed_set:
  "users_keyed this c \<Longrightarrow> ref_id this r = k \<Longrightarrow> users_keyed this (coll_set k r c)"
  by (simp add: users_keyed_def coll_set_def list_all_update)

lemma users_keyed_lookup:
  "users_keyed this c \<Longrightarrow> map_of c k = Some r \<Longrightarrow> ref_id this r = k"
proof -
  assume keyed: "users_keyed this c" and "map_of c k = Some r"
  then have "(k, r) \<in> set c" by (simp add: map_of_SomeD)
  with keyed have "ref_id this (snd (k, r)) = fst (k, r)"
    unfolding users_keyed_def list_all_iff by blast
  then show ?thesis by simp
qed

lemma users_keyed_cong:
  "user_id this' = user_id this \<Longrightarrow> users_keyed this' c = users_keyed this c"
proof -
  assume "user_id this' = user_id this"
  then have "ref_id this' r = ref_id this r" for r by (cases r) simp_all
  then show ?thesis by (simp add: users_keyed_def)
qed

lemma map_of_Some_key: "map_of c k = Some r \<Longrightarrow> k \<in> coll_keys c"
  by (auto simp: coll_keys_def dest: map_of_SomeD intro: rev_image_eqI)

lemma UserManager_add_keyed:
  assumes "users_keyed this c" and "UserManager_add data c = (u, c')"
  shows "ref_id this u = js_get ''id'' data"
    and "users_keyed this c'"
    and "coll_keys c' = insert (js_get ''id'' data) (coll_keys c)"
    and "map_of c' (js_get ''id'' data) = Some u"
    and "map_of c \<subseteq>\<^sub>m map_of c'"
proof -
  show "ref_id this u = js_get ''id'' data"
    using assms by (auto simp: UserManager_add_def users_keyed_lookup split: option.splits)
  show "users_keyed this c'"
    using assms by (auto simp: UserManager_add_def users_keyed_set split: option.splits)
  show "coll_keys c' = insert (js_get ''id'' data) (coll_keys c)"
    using assms by (auto simp: UserManager_add_def split: option.splits dest: map_of_Some_key)
  show "map_of c' (js_get ''id'' data) = Some u"
    using assms by (auto simp: UserManager_add_def split: option.splits)
  show "map_of c \<subseteq>\<^sub>m map_of c'"
    using assms by (auto simp: UserManager_add_def map_le_def split: option.splits)
qed

lemma relation_step_keyed:
  assumes "users_keyed this c" and "relation_step (this, c) r = (this', c')"
    and "map_of (friends this) \<subseteq>\<^sub>m map_of c" and "map_of (blocked this) \<subseteq>\<^sub>m map_of c"
  shows "user_id this' = user_id this"
    and "users_keyed this' c'"
    and "coll_keys c' = insert (relation_user_id r) (coll_keys c)"
    and "coll_keys (friends this') =
           (if rel_type r = JNum 1 then insert (relation_user_id r) (coll_keys (friends this))
            else coll_keys (friends this))"
    and "coll_keys (blocked this') =
           (if rel_type r = JNum 1 then coll_keys (blocked this)
            else if rel_type r = JNum 2 then insert (relation_user_id r) (coll_keys (blocked this))
            else coll_keys (blocked this))"
    and "map_of (friends this') \<subseteq>\<^sub>m map_of c'" and "map_of (blocked this') \<subseteq>\<^sub>m map_of c'"
proof -
  obtain u c1 where add: "UserManager_add (rel_user r) c = (u, c1)"
    by (cases "UserManager_add (rel_user r) c")
  note k = UserManager_add_keyed [OF assms(1) add]
  have c': "c' = c1" and this':
    "this' = (if rel_type r = JNum 1
              then this\<lparr>friends := coll_set (relation_user_id r) u (friends this)\<rparr>
              else if rel_type r = JNum 2
              then this\<lparr>blocked := coll_set (relation_user_id r) u (blocked this)\<rparr>
              else this)"
    using assms(2) add k(1)
    by (auto simp: relation_step_def Let_def relation_user_id_def split: if_splits)
  show id: "user_id this' = user_id this" by (simp add: this')
  show "users_keyed this' c'" using k(2) c' users_keyed_cong [OF id] by simp
  show "coll_keys c' = insert (relation_user_id r) (coll_keys c)"
    using k(3) c' by (simp add: relation_user_id_def)
  show "coll_keys (friends this') =
           (if rel_type r = JNum 1 then insert (relation_user_id r) (coll_keys (friends this))
            else coll_keys (friends this))"
    by (simp add: this')
  show "coll_keys (blocked this') =
           (if rel_type r = JNum 1 then coll_keys (blocked this)
            else if rel_type r = JNum 2 then insert (relation_user_id r) (coll_keys (blocked this))
            else coll_keys (blocked this))"
    by (simp add: this')
  have f: "map_of (friends this) \<subseteq>\<^sub>m map_of c1" and b: "map_of (blocked this) \<subseteq>\<^sub>m map_of c1"
    using assms(3,4) k(5) by (blast intro: map_le_trans)+
  have u: "map_of c1 (relation_user_id r) = Some u"
    using k(4) by (simp add: relation_user_id_def)
  show "map_of (friends this') \<subseteq>\<^sub>m map_of c'"
    using f u by (auto simp: this' c' map_le_def)
  show "map_of (blocked this') \<subseteq>\<^sub>m map_of c'"
    using b u by (auto simp: this' c' map_le_def)
qed

lemma relationships_keyed:
  assumes "users_keyed this c"
    and "map_of (friends this) \<subseteq>\<^sub>m map_of c" and "map_of (blocked this) \<subseteq>\<^sub>m map_of c"
    and "foldl relation_step (this, c) rels = (this', c')"
  shows "coll_keys c' = coll_keys c \<union> relation_user_id ` set rels
       \<and> coll_keys (friends this') =
           coll_keys (friends this) \<union> relation_user_id ` {r \<in> set rels. rel_type r = JNum 1}
       \<and> coll_keys (blocked this') =
           coll_keys (blocked this) \<union> relation_user_id ` {r \<in> set rels. rel_type r = JNum 2}
       \<and> map_of (friends this') \<subseteq>\<^sub>m map_of c' \<and> map_of (blocked this') \<subseteq>\<^sub>m map_of c'"
  using assms
proof (induction rels arbitrary: this c)
  case Nil
  then show ?case by simp
next
  case (Cons r rels)
  obtain this1 c1 where step: "relation_step (this, c) r = (this1, c1)"
    by (cases "relation_step (this, c) r")
  note s = relation_step_keyed [OF Cons.prems(1) step Cons.prems(2,3)]
  from Cons.prems(4) step have "foldl relation_step (this1, c1) rels = (this', c')" by simp
  from Cons.IH [OF s(2) s(6) s(7) this] show ?case
    unfolding s(3) s(4) s(5) by auto
qed

lemma note_step_frame [simp]:
  "friends (note_step this e) = friends this"
  "blocked (note_step this e) = blocked this"
  "settings (note_step this e) = settings this"
  "guildSettings (note_step this e) = guildSettings this"
  "user_id (note_step this e) = user_id this"
  by (simp_all add: note_step_def Let_def case_prod_beta)

lemma notes_frame [simp]:
  "friends (foldl note_step this es) = friends this"
  "blocked (foldl note_step this es) = blocked this"
  "settings (foldl note_step this es) = settings this"
  "guildSettings (foldl note_step this es) = guildSettings this"
  "user_id (foldl note_step this es) = user_id this"
  by (induction es arbitrary: this) simp_all

lemma cache_keyed_entry:
  assumes "cache_keyed_by_id client" and "(k, r) \<in> set (users client)"
  shows "case r of UserRef u \<Rightarrow> user_id u = k
         | SelfRef \<Rightarrow> map_option user_id (user client) = Some k"
proof -
  from assms have "case snd (k, r) of UserRef u \<Rightarrow> user_id u = fst (k, r)
         | SelfRef \<Rightarrow> map_option user_id (user client) = Some (fst (k, r))"
    unfolding cache_keyed_by_id_def list_all_iff by blast
  then show ?thesis by (cases r) simp_all
qed

lemma users_keyedI:
  assumes "\<And>k r. (k, r) \<in> set c \<Longrightarrow> ref_id this r = k"
  shows "users_keyed this c"
  using assms by (auto simp: users_keyed_def list_all_iff)

lemma READY_user_keyed:
  assumes "cache_keyed_by_id client" and "same_account client data"
    and "READY_user client data = Inr (client1, this1)"
  shows "users_keyed this1 (users client1)"
proof (cases "user client")
  case None
  from assms(3) None obtain tok where
    c1: "users client1 = coll_set (user_id this1) SelfRef (users client)"
    by (auto simp: READY_user_def Let_def split: sum.splits)
  have "users_keyed this1 (users client)"
  proof (rule users_keyedI)
    fix k r assume "(k, r) \<in> set (users client)"
    from cache_keyed_entry [OF assms(1) this] None show "ref_id this1 r = k"
      by (cases r) simp_all
  qed
  then show ?thesis unfolding c1 by (rule users_keyed_set) simp
next
  case (Some this)
  from assms(3) Some obtain tok where
    p: "ClientUser_patch (d_user data) (this, token client) = Inr (this1, tok)"
    and c1: "users client1 = users client"
    by (auto simp: READY_user_def Let_def split: sum.splits)
  from p obtain gs where "this1 = (patched_fields (d_user data) this)\<lparr>guildSettings := gs\<rparr>"
    by (rule ClientUser_patch_InrE)
  with assms(2) Some have id: "user_id this1 = user_id this"
    by (simp add: same_account_def)
  show ?thesis unfolding c1
  proof (rule users_keyedI)
    fix k r assume "(k, r) \<in> set (users client)"
    from cache_keyed_entry [OF assms(1) this] Some id show "ref_id this1 r = k"
      by (cases r) simp_all
  qed
qed

text \<open>The handshake keeps the user cache keyed by id: the hypothesis below holds of every
  client that handshakes of one account have made of a new client.\<close>

lemma relationships_users_keyed:
  assumes "users_keyed this c"
    and "foldl relation_step (this, c) rels = (this', c')"
  shows "users_keyed this' c'"
  using assms
proof (induction rels arbitrary: this c)
  case Nil
  then show ?case by simp
next
  case (Cons r rels)
  obtain this1 c1 where step: "relation_step (this, c) r = (this1, c1)"
    by (cases "relation_step (this, c) r")
  obtain u c2 where add: "UserManager_add (rel_user r) c = (u, c2)"
    by (cases "UserManager_add (rel_user r) c")
  from step add have c1: "c1 = c2" and id: "user_id this1 = user_id this"
    by (auto simp: relation_step_def Let_def split: if_splits)
  from UserManager_add_keyed(2) [OF Cons.prems(1) add] c1 users_keyed_cong [OF id]
  have "users_keyed this1 c1" by simp
  moreover from Cons.prems(2) step have "foldl relation_step (this1, c1) rels = (this', c')" by simp
  ultimately show ?case by (rule Cons.IH)
qed

lemma cache_keyed_by_id_iff:
  assumes "user client = Some this"
  shows "cache_keyed_by_id client = users_keyed this (users client)"
proof -
  have "(case r of UserRef u \<Rightarrow> user_id u = k
         | SelfRef \<Rightarrow> map_option user_id (user client) = Some k) = (ref_id this r = k)" for r k
    using assms by (cases r) auto
  then show ?thesis by (simp add: cache_keyed_by_id_def users_keyed_def)
qed

lemma handshake_keeps_cache_keyed:
  assumes "cache_keyed_by_id client" and "same_account client (packet_d pkt)"
    and "READY_handler client pkt shard = Inr client'"
  shows "cache_keyed_by_id client'"
proof -
  let ?rels = "d_relationships (packet_d pkt)"
  from assms(3) obtain client1 this1 where
    u: "READY_user client (packet_d pkt) = Inr (client1, this1)"
    and c': "user client' =
           Some (case d_notes (packet_d pkt) of
                   None \<Rightarrow> fst (foldl relation_step (this1, users client1) ?rels)
                 | Some entries \<Rightarrow>
                     foldl note_step (fst (foldl relation_step (this1, users client1) ?rels)) entries)"
    and us: "users client' = snd (foldl relation_step (this1, users client1) ?rels)"
    by (rule READY_handler_InrE)
  obtain this2 c2 where f: "foldl relation_step (this1, users client1) ?rels = (this2, c2)"
    by (cases "foldl relation_step (this1, users client1) ?rels")
  have "users_keyed this1 (users client1)"
    using assms(1,2) u by (rule READY_user_keyed)
  then have k2: "users_keyed this2 c2" using f by (rule relationships_users_keyed)
  obtain this' where this': "user client' = Some this'" and id: "user_id this' = user_id this2"
    using c' f by (auto split: option.splits)
  from k2 users_keyed_cong [OF id] us f this' show ?thesis
    by (simp add: cache_keyed_by_id_iff)
qed

text \<open>
  What the user cache holds after lines 6 to 16 and after the loop over the
  relationships, entry by entry.
\<close>

lemma UserManager_add_map:
  "map_of (snd (UserManager_add data c)) k =
     (case map_of c k of
        Some e \<Rightarrow> Some e
      | None \<Rightarrow> if k = js_get ''id'' data then Some (UserRef (new_User data)) else None)"
  by (auto simp: UserManager_add_def split: option.splits)

lemma relation_step_users:
  "snd (relation_step (this, c) r) = snd (UserManager_add (rel_user r) c)"
  by (simp add: relation_step_def Let_def case_prod_beta)

lemma relationships_users_map:
  "map_of (snd (foldl relation_step (this, c) rels)) k =
     (case map_of c k of
        Some e \<Rightarrow> Some e
      | None \<Rightarrow> map_option (\<lambda>r. UserRef (new_User (rel_user r)))
                 (find (\<lambda>r. relation_user_id r = k) rels))"
proof (induction rels arbitrary: this c)
  case Nil
  show ?case by (simp split: option.splits)
next
  case (Cons r rels)
  obtain this1 c1 where step: "relation_step (this, c) r = (this1, c1)"
    by (cases "relation_step (this, c) r")
  have c1: "c1 = snd (UserManager_add (rel_user r) c)"
    using relation_step_users [of this c r] step by simp
  have "map_of (snd (foldl relation_step (this1, c1) rels)) k =
     (case map_of c1 k of
        Some e \<Rightarrow> Some e
      | None \<Rightarrow> map_option (\<lambda>r. UserRef (new_User (rel_user r)))
                 (find (\<lambda>r. relation_user_id r = k) rels))"
    by (rule Cons.IH)
  then show ?case
    by (auto simp: step c1 UserManager_add_map relation_user_id_def split: option.splits)
qed

lemma READY_user_users_map:
  assumes "READY_user client data = Inr (client1, this1)"
  shows "map_of (users client1) k =
     (if user client = None \<and> k = js_get ''id'' (d_user data) then Some SelfRef
      else map_of (users client) k)"
proof (cases "user client")
  case None
  from assms None obtain tok where
    n: "new_ClientUser
          (js_put ''user_guild_settings'' (d_user_guild_settings data)
             (js_put ''user_settings'' (d_user_settings data) (d_user data)))
          (token client) = Inr (this1, tok)"
    and c1: "users client1 = coll_set (user_id this1) SelfRef (users client)"
    by (auto simp: READY_user_def Let_def split: sum.splits)
  from n have "user_id this1 = js_get ''id'' (d_user data)"
    by (rule new_ClientUser_InrE)
       (simp add: js_get_put js_in_put blank_ClientUser_def js_get_absent)
  with None show ?thesis by (simp add: c1)
next
  case (Some this)
  with assms have "users client1 = users client"
    by (auto simp: READY_user_def Let_def split: sum.splits)
  with Some show ?thesis by simp
qed

lemma map_le_dom_restrict:
  assumes "m1 \<subseteq>\<^sub>m m2" and "dom m1 = S"
  shows "m1 = m2 |` S"
proof
  fix k
  show "m1 k = (m2 |` S) k"
  proof (cases "k \<in> S")
    case True
    with assms have "k \<in> dom m1" by simp
    with assms(1) have "m1 k = m2 k" by (simp add: map_le_def)
    with True show ?thesis by simp
  next
    case False
    with assms(2) have "m1 k = None" by auto
    with False show ?thesis by simp
  qed
qed

lemma dom_map_of_coll_keys: "dom (map_of c) = coll_keys c"
  by (simp add: coll_keys_def dom_map_of_conv_image_fst)

text \<open>
  C5: for every list of relationship records of a handshake (on a client whose user
  cache stores users under their ids, for the account it is logged in as), every
  record's user is inserted into the global user cache: afterwards the cache holds,
  under every id, the entry it held before the loop (the client user under its own id
  after a first handshake), and under the id of a record not cached before, the user
  built from the first such record's user data; nothing else is added and nothing is
  replaced. The friends mapping is exactly the user cache restricted to the users of
  the records with type 1 and the blocked mapping the cache restricted to those of the
  records with type 2; and a user whose records all have other type codes is in the user
  cache and in neither mapping.
\<close>

theorem relationship_classification:
  assumes "cache_keyed_by_id client" and "same_account client (packet_d pkt)"
    and "READY_handler client pkt shard = Inr client'"
  shows "\<exists>this'. user client' = Some this'
     \<and> (\<forall>k. map_of (users client') k =
            (case (if user client = None \<and> k = js_get ''id'' (d_user (packet_d pkt))
                   then Some SelfRef else map_of (users client) k) of
               Some e \<Rightarrow> Some e
             | None \<Rightarrow> map_option (\<lambda>r. UserRef (new_User (rel_user r)))
                        (find (\<lambda>r. relation_user_id r = k) (d_relationships (packet_d pkt)))))
     \<and> relation_user_id ` set (d_relationships (packet_d pkt)) \<subseteq> coll_keys (users client')
     \<and> coll_keys (friends this') =
          relation_user_id ` {r \<in> set (d_relationships (packet_d pkt)). rel_type r = JNum 1}
     \<and> coll_keys (blocked this') =
          relation_user_id ` {r \<in> set (d_relationships (packet_d pkt)). rel_type r = JNum 2}
     \<and> map_of (friends this') \<subseteq>\<^sub>m map_of (users client')
     \<and> map_of (blocked this') \<subseteq>\<^sub>m map_of (users client')
     \<and> map_of (friends this') =
          map_of (users client') |`
            (relation_user_id ` {r \<in> set (d_relationships (packet_d pkt)). rel_type r = JNum 1})
     \<and> map_of (blocked this') =
          map_of (users client') |`
            (relation_user_id ` {r \<in> set (d_relationships (packet_d pkt)). rel_type r = JNum 2})
     \<and> (\<forall>r \<in> set (d_relationships (packet_d pkt)).
          (\<forall>r' \<in> set (d_relationships (packet_d pkt)).
             relation_user_id r' = relation_user_id r \<longrightarrow>
               rel_type r' \<noteq> JNum 1 \<and> rel_type r' \<noteq> JNum 2) \<longrightarrow>
          relation_user_id r \<in> coll_keys (users client')
          \<and> relation_user_id r \<notin> coll_keys (friends this')
          \<and> relation_user_id r \<notin> coll_keys (blocked this'))"
proof -
  let ?rels = "d_relationships (packet_d pkt)"
  from assms(3) obtain client1 this1 where
    u: "READY_user client (packet_d pkt) = Inr (client1, this1)"
    and c': "user client' =
           Some (case d_notes (packet_d pkt) of
                   None \<Rightarrow> fst (foldl relation_step (this1, users client1) ?rels)
                 | Some entries \<Rightarrow>
                     foldl note_step (fst (foldl relation_step (this1, users client1) ?rels)) entries)"
    and us: "users client' = snd (foldl relation_step (this1, users client1) ?rels)"
    by (rule READY_handler_InrE)
  obtain this2 c2 where f: "foldl relation_step (this1, users client1) ?rels = (this2, c2)"
    by (cases "foldl relation_step (this1, users client1) ?rels")
  define this' where
    "this' = (case d_notes (packet_d pkt) of None \<Rightarrow> this2 | Some entries \<Rightarrow> foldl note_step this2 entries)"
  have fr: "friends this' = friends this2" and bl: "blocked this' = blocked this2"
    by (simp_all add: this'_def split: option.splits)
  have e: "friends this1 = []" "blocked this1 = []"
    using u by (rule READY_user_Inr)+
  have keyed: "users_keyed this1 (users client1)"
    using assms(1,2) u by (rule READY_user_keyed)
  have "coll_keys c2 = coll_keys (users client1) \<union> relation_user_id ` set ?rels
       \<and> coll_keys (friends this2) =
           coll_keys (friends this1) \<union> relation_user_id ` {r \<in> set ?rels. rel_type r = JNum 1}
       \<and> coll_keys (blocked this2) =
           coll_keys (blocked this1) \<union> relation_user_id ` {r \<in> set ?rels. rel_type r = JNum 2}
       \<and> map_of (friends this2) \<subseteq>\<^sub>m map_of c2 \<and> map_of (blocked this2) \<subseteq>\<^sub>m map_of c2"
    using keyed _ _ f by (rule relationships_keyed) (simp_all add: e)
  then have k: "coll_keys c2 = coll_keys (users client1) \<union> relation_user_id ` set ?rels"
    and kf: "coll_keys (friends this') = relation_user_id ` {r \<in> set ?rels. rel_type r = JNum 1}"
    and kb: "coll_keys (blocked this') = relation_user_id ` {r \<in> set ?rels. rel_type r = JNum 2}"
    and mf: "map_of (friends this') \<subseteq>\<^sub>m map_of c2"
    and mb: "map_of (blocked this') \<subseteq>\<^sub>m map_of c2"
    by (simp_all add: e fr bl)
  have 1: "user client' = Some this'" using c' f by (simp add: this'_def split: option.splits)
  have 2: "users client' = c2" using us f by simp
  have 3: "relation_user_id ` set ?rels \<subseteq> coll_keys (users client')"
    unfolding 2 k by blast
  have 4: "\<forall>r \<in> set ?rels.
          (\<forall>r' \<in> set ?rels. relation_user_id r' = relation_user_id r \<longrightarrow>
               rel_type r' \<noteq> JNum 1 \<and> rel_type r' \<noteq> JNum 2) \<longrightarrow>
          relation_user_id r \<in> coll_keys (users client')
          \<and> relation_user_id r \<notin> coll_keys (friends this')
          \<and> relation_user_id r \<notin> coll_keys (blocked this')"
    unfolding 2 k kf kb by auto
  have 5: "\<forall>k. map_of c2 k =
            (case (if user client = None \<and> k = js_get ''id'' (d_user (packet_d pkt))
                   then Some SelfRef else map_of (users client) k) of
               Some e \<Rightarrow> Some e
             | None \<Rightarrow> map_option (\<lambda>r. UserRef (new_User (rel_user r)))
                        (find (\<lambda>r. relation_user_id r = k) ?rels))"
    using relationships_users_map [of this1 "users client1" ?rels] f
    by (simp add: READY_user_users_map [OF u])
  have 6: "map_of (friends this') = map_of c2 |` (relation_user_id ` {r \<in> set ?rels. rel_type r = JNum 1})"
    using mf by (rule map_le_dom_restrict) (simp add: dom_map_of_coll_keys kf)
  have 7: "map_of (blocked this') = map_of c2 |` (relation_user_id ` {r \<in> set ?rels. rel_type r = JNum 2})"
    using mb by (rule map_le_dom_restrict) (simp add: dom_map_of_coll_keys kb)
  from 1 3 4 5 6 7 kf kb mf mb show ?thesis
    unfolding 2 by (intro exI [of _ this'] conjI) assumption+
qed

theorem relationship_classification_witness:
  "cache_keyed_by_id example_client \<and> same_account example_client (packet_d classification_packet)
   \<and> (\<exists>client' this'.
         READY_handler example_client classification_packet shard0 = Inr client'
         \<and> user client' = Some this'
         \<and> map_of (users client') (JStr ''1'') = Some SelfRef
         \<and> map_of (users client') (JStr ''2'') = Some (UserRef (new_User [(''id'', JStr ''2'')]))
         \<and> map_of (users client') (JStr ''A'')
             = Some (UserRef (new_User [(''id'', JStr ''A''), (''username'', JStr ''alice'')]))
         \<and> map_of (users client') (JStr ''C'')
             = Some (UserRef (new_User [(''id'', JStr ''C''), (''username'', JStr ''carol'')]))
         \<and> coll_keys (friends this') = {JStr ''2'', JStr ''A''}
         \<and> coll_keys (blocked this') = {JStr ''B''}
         \<and> map_of (friends this') (JStr ''A'')
             = Some (UserRef (new_User [(''id'', JStr ''A''), (''username'', JStr ''alice'')]))
         \<and> map_of (friends this') (JStr ''2'') = Some (UserRef (new_User [(''id'', JStr ''2'')]))
         \<and> map_of (blocked this') (JStr ''B'')
             = Some (UserRef (new_User [(''id'', JStr ''B''), (''username'', JStr ''bob'')]))
         \<and> JStr ''C'' \<notin> coll_keys (friends this')
         \<and> JStr ''C'' \<notin> coll_keys (blocked this'))"
proof -
  let ?rels = "d_relationships (packet_d classification_packet)"
  have h1: "cache_keyed_by_id example_client"
    by (simp add: cache_keyed_by_id_def example_client_def example_user_def blank_ClientUser_def
        js_get_def)
  have h2: "same_account example_client (packet_d classification_packet)"
    by (simp add: same_account_def example_client_def classification_packet_def example_user_def
        blank_ClientUser_def js_in_def js_get_def)
  have "\<exists>c'. READY_handler example_client classification_packet shard0 = Inr c'"
    by (simp add: example_defs classification_packet_def eval_defs)
  then obtain client' where h3: "READY_handler example_client classification_packet shard0 = Inr client'" ..
  have f: "relation_user_id ` {r \<in> set ?rels. rel_type r = JNum 1} = {JStr ''2'', JStr ''A''}"
    unfolding set_filter [symmetric]
    by (simp add: classification_packet_def relation_user_id_def js_get_def)
  have b: "relation_user_id ` {r \<in> set ?rels. rel_type r = JNum 2} = {JStr ''B''}"
    unfolding set_filter [symmetric]
    by (simp add: classification_packet_def relation_user_id_def js_get_def)
  from relationship_classification [OF h1 h2 h3] show ?thesis
  proof (elim exE conjE)
    fix this'
    assume t: "user client' = Some this'"
      and m: "\<forall>k. map_of (users client') k =
            (case (if user example_client = None \<and> k = js_get ''id'' (d_user (packet_d classification_packet))
                   then Some SelfRef else map_of (users example_client) k) of
               Some e \<Rightarrow> Some e
             | None \<Rightarrow> map_option (\<lambda>r. UserRef (new_User (rel_user r)))
                        (find (\<lambda>r. relation_user_id r = k) ?rels))"
      and kf: "coll_keys (friends this') = relation_user_id ` {r \<in> set ?rels. rel_type r = JNum 1}"
      and kb: "coll_keys (blocked this') = relation_user_id ` {r \<in> set ?rels. rel_type r = JNum 2}"
      and vf: "map_of (friends this') =
          map_of (users client') |` (relation_user_id ` {r \<in> set ?rels. rel_type r = JNum 1})"
      and vb: "map_of (blocked this') =
          map_of (users client') |` (relation_user_id ` {r \<in> set ?rels. rel_type r = JNum 2})"
    have s: "user example_client \<noteq> None"
      "map_of (users example_client) (JStr ''1'') = Some SelfRef"
      "map_of (users example_client) (JStr ''2'') = Some (UserRef (new_User [(''id'', JStr ''2'')]))"
      "map_of (users example_client) (JStr ''A'') = None"
      "map_of (users example_client) (JStr ''B'') = None"
      "map_of (users example_client) (JStr ''C'') = None"
      by (simp_all add: example_client_def)
    have r: "find (\<lambda>r. relation_user_id r = JStr ''A'') ?rels
               = Some \<lparr>rel_user = [(''id'', JStr ''A''), (''username'', JStr ''alice'')], rel_type = JNum 1\<rparr>"
      "find (\<lambda>r. relation_user_id r = JStr ''B'') ?rels
               = Some \<lparr>rel_user = [(''id'', JStr ''B''), (''username'', JStr ''bob'')], rel_type = JNum 2\<rparr>"
      "find (\<lambda>r. relation_user_id r = JStr ''C'') ?rels
               = Some \<lparr>rel_user = [(''id'', JStr ''C''), (''username'', JStr ''carol'')], rel_type = JNum 99\<rparr>"
      by (simp_all add: classification_packet_def relation_user_id_def js_get_def)
    have u: "map_of (users client') (JStr ''1'') = Some SelfRef"
      "map_of (users client') (JStr ''2'') = Some (UserRef (new_User [(''id'', JStr ''2'')]))"
      "map_of (users client') (JStr ''A'')
         = Some (UserRef (new_User [(''id'', JStr ''A''), (''username'', JStr ''alice'')]))"
      "map_of (users client') (JStr ''B'')
         = Some (UserRef (new_User [(''id'', JStr ''B''), (''username'', JStr ''bob'')]))"
      "map_of (users client') (JStr ''C'')
         = Some (UserRef (new_User [(''id'', JStr ''C''), (''username'', JStr ''carol'')]))"
      using m s r by simp_all
    have kf': "coll_keys (friends this') = {JStr ''2'', JStr ''A''}"
      and kb': "coll_keys (blocked this') = {JStr ''B''}"
      unfolding kf kb f b by simp_all
    have v: "map_of (friends this') (JStr ''A'')
               = Some (UserRef (new_User [(''id'', JStr ''A''), (''username'', JStr ''alice'')]))"
      "map_of (friends this') (JStr ''2'') = Some (UserRef (new_User [(''id'', JStr ''2'')]))"
      "map_of (blocked this') (JStr ''B'')
               = Some (UserRef (new_User [(''id'', JStr ''B''), (''username'', JStr ''bob'')]))"
      unfolding vf vb f b by (simp_all add: u)
    have n: "JStr ''C'' \<notin> coll_keys (friends this')" "JStr ''C'' \<notin> coll_keys (blocked this')"
      unfolding kf' kb' by simp_all
    from h1 h2 h3 t u kf' kb' v n show ?thesis
      by (intro conjI exI [of _ client'] exI [of _ this']) assumption+
  qed
qed

section \<open>Repeated handshakes\<close>

text \<open>
  What a handshake leaves as the settings of the client user: a first handshake reads the
  packet's \<^verbatim>\<open>user_settings\<close>, a later one the key of that name in the user payload,
  which the packet does not have.
\<close>

lemma READY_user_settings:
  assumes "READY_user client data = Inr (client1, this1)"
  shows "settings this1 =
    (case user client of
       None \<Rightarrow>
         if truthy (d_user_settings data) then Some (ClientUserSettings (d_user_settings data)) else None
     | Some this \<Rightarrow>
         if truthy (js_get ''user_settings'' (d_user data))
         then Some (ClientUserSettings (js_get ''user_settings'' (d_user data))) else None)"
  using assms
  by (auto simp: READY_user_def Let_def js_get_put split: option.splits sum.splits
      elim!: ClientUser_patch_InrE new_ClientUser_InrE)

lemma handshake_settings:
  assumes "READY_handler client pkt shard = Inr client'"
  shows "map_option settings (user client') = Some
    (case user client of
       None \<Rightarrow>
         if truthy (d_user_settings (packet_d pkt))
         then Some (ClientUserSettings (d_user_settings (packet_d pkt))) else None
     | Some this \<Rightarrow>
         if truthy (js_get ''user_settings'' (d_user (packet_d pkt)))
         then Some (ClientUserSettings (js_get ''user_settings'' (d_user (packet_d pkt)))) else None)"
proof -
  from assms obtain client1 this1 where
    u: "READY_user client (packet_d pkt) = Inr (client1, this1)"
    and c': "user client' =
           Some (case d_notes (packet_d pkt) of
                   None \<Rightarrow> fst (foldl relation_step (this1, users client1) (d_relationships (packet_d pkt)))
                 | Some entries \<Rightarrow>
                     foldl note_step
                       (fst (foldl relation_step (this1, users client1) (d_relationships (packet_d pkt))))
                       entries)"
    by (rule READY_handler_InrE)
  have "map_option settings (user client') = Some (settings this1)"
    using c' by (simp split: option.splits)
  then show ?thesis by (simp add: READY_user_settings [OF u])
qed

lemma handshake_has_user:
  assumes "READY_handler client pkt shard = Inr client'"
  shows "\<exists>this'. user client' = Some this'"
  using assms by (rule READY_handler_InrE) simp

lemma repeated_handshake_loses_settings:
  assumes "user client = None"
    and "truthy (d_user_settings (packet_d pkt))"
    and "\<not> js_in ''user_settings'' (d_user (packet_d pkt))"
    and "READY_handler client pkt shard = Inr client1"
    and "READY_twice client pkt shard = Inr client2"
  shows "map_option settings (user client1)
           = Some (Some (ClientUserSettings (d_user_settings (packet_d pkt))))"
    and "map_option settings (user client2) = Some None"
proof -
  show "map_option settings (user client1)
           = Some (Some (ClientUserSettings (d_user_settings (packet_d pkt))))"
    using handshake_settings [OF assms(4)] assms(1,2) by simp
  from handshake_has_user [OF assms(4)] obtain this1 where this1: "user client1 = Some this1" ..
  from assms(4,5) have "READY_handler client1 pkt shard = Inr client2"
    by (simp add: READY_twice_def)
  from handshake_settings [OF this] this1 assms(3)
  show "map_option settings (user client2) = Some None"
    by (simp add: js_get_absent)
qed

text \<open>
  C2 at a concrete payload: a first handshake of a new client fills the settings and the
  guild settings of the client user from the payload; a second handshake with the same
  payload patches that same client user and leaves it without settings and with no
  guild settings.
\<close>

theorem repeated_handshake_drops_settings:
  "map_sum id (map_option settings \<circ> user) (READY_handler fresh_client example_packet shard0)
     = Inr (Some (Some (ClientUserSettings (JObj [(''theme'', JStr ''dark'')]))))
   \<and> map_sum id (map_option settings \<circ> user) (READY_twice fresh_client example_packet shard0)
     = Inr (Some None)
   \<and> map_sum id (map_option guildSettings \<circ> user) (READY_handler fresh_client example_packet shard0)
     = Inr (Some [(JStr ''g'',
          ClientUserGuildSettings (JObj [(''guild_id'', JStr ''g''), (''muted'', JBool True)]))])
   \<and> map_sum id (map_option guildSettings \<circ> user) (READY_twice fresh_client example_packet shard0)
     = Inr (Some [])"
  by (simp add: READY_twice_def example_defs eval_defs)

section \<open>The note update action\<close>

lemma handshake_bootstraps:
  "READY_handler fresh_client example_packet shard0 = Inr bootstrapped_client"
  by (simp add: bootstrapped_client_def example_defs eval_defs)

lemma relation_step_cache [simp]: "cache (fst (relation_step st r)) = cache (fst st)"
  by (simp add: relation_step_def Let_def case_prod_beta)

lemma relationships_cache [simp]: "cache (fst (foldl relation_step st rels)) = cache (fst st)"
  by (induction rels arbitrary: st) simp_all

lemma note_step_cache [simp]: "cache (note_step this e) = cache this"
  by (simp add: note_step_def Let_def case_prod_beta)

lemma notes_cache [simp]: "cache (foldl note_step this es) = cache this"
  by (induction es arbitrary: this) simp_all

lemma READY_user_cache:
  assumes "READY_user client data = Inr (client1, this1)"
  shows "cache this1 = (case user client of None \<Rightarrow> None | Some this \<Rightarrow> cache this)"
  using assms
  by (auto simp: READY_user_def Let_def blank_ClientUser_def split: option.splits sum.splits
      elim!: ClientUser_patch_InrE new_ClientUser_InrE)

lemma handshake_cache:
  assumes "READY_handler client pkt shard = Inr client'"
  shows "map_option cache (user client') =
           Some (case user client of None \<Rightarrow> None | Some this \<Rightarrow> cache this)"
proof -
  from assms obtain client1 this1 where
    u: "READY_user client (packet_d pkt) = Inr (client1, this1)"
    and c': "user client' =
           Some (case d_notes (packet_d pkt) of
                   None \<Rightarrow> fst (foldl relation_step (this1, users client1) (d_relationships (packet_d pkt)))
                 | Some entries \<Rightarrow>
                     foldl note_step
                       (fst (foldl relation_step (this1, users client1) (d_relationships (packet_d pkt))))
                       entries)"
    by (rule READY_handler_InrE)
  from c' READY_user_cache [OF u] show ?thesis by (simp split: option.splits)
qed

lemma handle_without_cache:
  assumes "map_option cache (user client) = Some None"
  shows "UserNoteUpdateAction_handle listeners data client = (Inl TypeError, [], client)"
  using assms by (auto simp: UserNoteUpdateAction_handle_def split: option.splits)

lemma handle_with_cache:
  assumes "user client = Some this" and "cache this = Some c"
  shows "UserNoteUpdateAction_handle listeners data client =
           (Inr \<lparr>old = coll_get (cache_notes c) (ev_id data),
                 updated = (if ev_note data \<noteq> [] then JStr (ev_note data) else JNull)\<rparr>,
            map (\<lambda>listener. listener
                   \<lparr>event_name = ''userNoteUpdate'',
                    event_args = [ev_id data, coll_get (cache_notes c) (ev_id data),
                                  (if ev_note data \<noteq> [] then JStr (ev_note data) else JNull)]\<rparr>
                   (client\<lparr>user := Some (this\<lparr>cache := Some (c\<lparr>cache_notes :=
                       coll_set (ev_id data)
                         (if ev_note data \<noteq> [] then JStr (ev_note data) else JNull)
                         (cache_notes c)\<rparr>)\<rparr>)\<rparr>))
              listeners,
            client\<lparr>user := Some (this\<lparr>cache := Some (c\<lparr>cache_notes :=
                       coll_set (ev_id data)
                         (if ev_note data \<noteq> [] then JStr (ev_note data) else JNull)
                         (cache_notes c)\<rparr>)\<rparr>)\<rparr>)"
  using assms by (simp add: UserNoteUpdateAction_handle_def Let_def emit_def)

lemma handle_keeps_user_notes:
  "map_option user_notes (user (snd (snd (UserNoteUpdateAction_handle listeners data client))))
     = map_option user_notes (user client)"
  by (simp add: UserNoteUpdateAction_handle_def Let_def split: option.splits)

lemma handle_after_first_handshake:
  assumes "user client = None" and "READY_handler client pkt shard = Inr client'"
  shows "UserNoteUpdateAction_handle listeners data client' = (Inl TypeError, [], client')"
  using handshake_cache [OF assms(2)] assms(1) by (simp add: handle_without_cache)

lemmas bootstrapped_defs = bootstrapped_client_def with_empty_cache_def blank_ClientUser_def
  UserNoteUpdateAction_handle_def emit_def notes_observer_def coll_get_def coll_set_def Let_def

text \<open>
  C3 at a concrete input: the handshake caches the note \<^verbatim>\<open>hi\<close> for user A in the client
  user's notes; the note update \<^verbatim>\<open>{id: A, note: ""}\<close> then throws at the read of
  \<^verbatim>\<open>client.user.cache.notes\<close>, returning nothing and changing nothing. Were the client
  user to carry a \<^verbatim>\<open>cache\<close> object, the call would return \<^verbatim>\<open>undefined\<close> as the old
  note, not \<^verbatim>\<open>hi\<close>, and the client user's notes would still hold \<^verbatim>\<open>hi\<close> for A.
\<close>

theorem note_update_after_handshake_throws:
  "READY_handler fresh_client example_packet shard0 = Inr bootstrapped_client
   \<and> map_option user_notes (user bootstrapped_client)
       = Some [(JStr ''A'', JStr ''hi''), (JStr ''B'', JNull)]
   \<and> UserNoteUpdateAction_handle [] \<lparr>ev_id = JStr ''A'', ev_note = []\<rparr> bootstrapped_client
       = (Inl TypeError, [], bootstrapped_client)
   \<and> fst (UserNoteUpdateAction_handle [] \<lparr>ev_id = JStr ''A'', ev_note = []\<rparr>
             (with_empty_cache bootstrapped_client))
       = Inr \<lparr>old = JUndefined, updated = JNull\<rparr>
   \<and> map_option user_notes
         (user (snd (snd (UserNoteUpdateAction_handle [] \<lparr>ev_id = JStr ''A'', ev_note = []\<rparr>
                            (with_empty_cache bootstrapped_client)))))
       = Some [(JStr ''A'', JStr ''hi''), (JStr ''B'', JNull)]"
  by (simp add: handshake_bootstraps) (simp add: bootstrapped_defs)

text \<open>
  C4 at a concrete input: with an observer registered, the note update
  \<^verbatim>\<open>{id: A, note: "bye"}\<close> after the handshake throws before the write and before the
  notification, so the observer is never called. Were the client user to carry a
  \<^verbatim>\<open>cache\<close> object, the observer would be notified and would read the old note
  \<^verbatim>\<open>hi\<close> from the client user's notes.
\<close>

theorem note_update_after_handshake_notifies_nobody:
  "UserNoteUpdateAction_handle [notes_observer] \<lparr>ev_id = JStr ''A'', ev_note = ''bye''\<rparr>
     bootstrapped_client
     = (Inl TypeError, [], bootstrapped_client)
   \<and> fst (snd (UserNoteUpdateAction_handle [notes_observer] \<lparr>ev_id = JStr ''A'', ev_note = ''bye''\<rparr>
                   (with_empty_cache bootstrapped_client)))
       = [JStr ''hi'']"
  by (simp add: bootstrapped_defs)

section \<open>Editing the profile\<close>

text \<open>
  C8: whenever \<^verbatim>\<open>edit\<close> issues the PATCH request and the request fails, the operation
  \<^verbatim>\<open>edit\<close> returns fails with the request's error and the client is exactly as before:
  the client user, its collections, the user cache and the credential slot are untouched.
  The token is forwarded and the update action runs in the success branch only.
\<close>

theorem edit_failure_atomic:
  assumes "user client = Some this"
    and "edit_body (bot_flag this) data passcode = Inr body"
    and "api_patch body = Inl err"
  shows "ClientUser_edit api_patch UserUpdate_handle data passcode client
           = (Inl (RequestError err), client)"
  using assms by (simp add: ClientUser_edit_def)

theorem edit_failure_atomic_witness:
  "user example_client = Some example_user
   \<and> edit_body (bot_flag example_user) [(''username'', JStr ''alice'')] (JStr ''pw'')
       = Inr [(''username'', JStr ''alice''), (''password'', JStr ''pw'')]
   \<and> failing_api [(''username'', JStr ''alice''), (''password'', JStr ''pw'')] = Inl ''401: Unauthorized''
   \<and> ClientUser_edit failing_api rotating_UserUpdate_handle [(''username'', JStr ''alice'')] (JStr ''pw'')
         example_client
       = (Inl (RequestError ''401: Unauthorized''), example_client)"
proof -
  have h1: "user example_client = Some example_user"
    by (simp add: example_client_def)
  have h2: "edit_body (bot_flag example_user) [(''username'', JStr ''alice'')] (JStr ''pw'')
       = Inr [(''username'', JStr ''alice''), (''password'', JStr ''pw'')]"
    by (simp add: edit_body_def example_user_def blank_ClientUser_def js_put_def)
  have h3: "failing_api [(''username'', JStr ''alice''), (''password'', JStr ''pw'')] = Inl ''401: Unauthorized''"
    by (simp add: failing_api_def)
  from edit_failure_atomic
         [where api_patch = failing_api and UserUpdate_handle = rotating_UserUpdate_handle,
          OF h1 h2 h3]
       h1 h2 h3
  show ?thesis by simp
qed

section \<open>The owner of an application\<close>

text \<open>
  C9 as stated fails: the payload of an application without a team has the key
  \<^verbatim>\<open>team\<close> with the value \<^verbatim>\<open>null\<close>; the key is present, and the owner becomes the user
  of the \<^verbatim>\<open>owner\<close> key, not a Team.
\<close>

theorem application_owner_counterexample:
  "js_in ''team'' [(''team'', JNull), (''owner'', JObj [(''id'', JStr ''7'')])]
   \<and> owner (fst (ClientApplication_patch no_Application_patch
                    [(''team'', JNull), (''owner'', JObj [(''id'', JStr ''7'')])]
                    (blank_application, [])))
       = SoleOwner (UserRef (new_User [(''id'', JStr ''7'')]))"
  by (simp add: ClientApplication_patch_def UserManager_add_def js_in_def js_get_def Let_def)

text \<open>
  C9, amended: after \<^verbatim>\<open>ClientApplication._patch\<close> the owner is a Team built from the
  payload's \<^verbatim>\<open>team\<close> when that value is truthy (team takes precedence over owner),
  otherwise the user of the global user cache resolved from the payload's \<^verbatim>\<open>owner\<close>
  when that value is truthy, and otherwise \<^verbatim>\<open>null\<close>.
\<close>

theorem application_owner_resolution_amended:
  "owner (fst (ClientApplication_patch Application_patch data (this, users_cache))) =
     (if truthy (js_get ''team'' data) then TeamOwner (Team (js_get ''team'' data))
      else if truthy (js_get ''owner'' data)
      then SoleOwner (fst (UserManager_add (js_fields (js_get ''owner'' data)) users_cache))
      else NoOwner)"
  by (simp add: ClientApplication_patch_def Let_def case_prod_beta)

end
